theory Spec2Isabelle
  imports Main
begin

section \<open>Python values\<close>

text \<open>
  A Python \<open>str\<close> is a sequence of Unicode code points: \<open>len\<close> counts code points and
  \<open>strip\<close> looks at code points. The messages of \<open>ancy.py\<close> begin with characters
  beyond ASCII, so a string is a list of code points, and \<open>ascii\<close> embeds the ASCII
  part of a literal.
\<close>

type_synonym codepoint = nat
type_synonym pystr = "codepoint list"

definition ascii :: "string \<Rightarrow> pystr" where
  "ascii s = map of_char s"

text \<open>
  The values that \<open>json.loads\<close> produces and that the conversation holds: \<open>None\<close>,
  booleans, integers, floats (kept as their \<open>repr\<close>: nothing here computes with them),
  strings, lists and dicts with string keys (the items in order, keys distinct).
\<close>

datatype pyval =
    PNone
  | PBool bool
  | PInt int
  | PFloat pystr
  | PStr pystr
  | PList "pyval list"
  | PDict "(pystr \<times> pyval) list"

fun truthy :: "pyval \<Rightarrow> bool" where
  "truthy PNone = False"
| "truthy (PBool b) = b"
| "truthy (PInt i) = (i \<noteq> 0)"
| "truthy (PFloat f) = (f \<noteq> ascii ''0.0'' \<and> f \<noteq> ascii ''-0.0'')"
| "truthy (PStr s) = (s \<noteq> [])"
| "truthy (PList xs) = (xs \<noteq> [])"
| "truthy (PDict d) = (d \<noteq> [])"

text \<open>\<open>str(n)\<close> for a non-negative integer: its decimal digits.\<close>

fun str_nat :: "nat \<Rightarrow> pystr" where
  "str_nat n = (if n < 10 then [48 + n] else str_nat (n div 10) @ [48 + n mod 10])"

declare str_nat.simps [simp del]

text \<open>
  \<open>str.isspace\<close> of one character, which is what \<open>str.strip()\<close> without argument
  removes from both ends.
\<close>

definition py_isspace :: "codepoint \<Rightarrow> bool" where
  "py_isspace c \<longleftrightarrow>
     (9 \<le> c \<and> c \<le> 13) \<or> (28 \<le> c \<and> c \<le> 32) \<or> c = 133 \<or> c = 160 \<or> c = 5760 \<or>
     (8192 \<le> c \<and> c \<le> 8202) \<or> c = 8232 \<or> c = 8233 \<or> c = 8239 \<or> c = 8287 \<or> c = 12288"

definition strip :: "pystr \<Rightarrow> pystr" where
  "strip s = rev (dropWhile py_isspace (rev (dropWhile py_isspace s)))"

section \<open>Exceptions\<close>

text \<open>
  The exception classes that can occur inside \<open>_make_api_request\<close>. \<open>ConnectTimeout\<close>
  inherits from both \<open>ConnectionError\<close> and \<open>Timeout\<close>, \<open>ReadTimeout\<close> from
  \<open>Timeout\<close>; every class is an \<open>Exception\<close>. An exception carries its class and
  \<open>str(e)\<close>.
\<close>

datatype exn_class =
    HTTPError
  | ConnectionError
  | ConnectTimeout
  | ReadTimeout
  | JSONDecodeError
  | KeyError
  | IndexError
  | TypeError
  | UnboundLocalError
  | AttributeError
  | OtherException

datatype exn = Exn exn_class pystr

fun is_HTTPError :: "exn_class \<Rightarrow> bool" where
  "is_HTTPError c = (c = HTTPError)"

fun is_ConnectionError :: "exn_class \<Rightarrow> bool" where
  "is_ConnectionError c = (c = ConnectionError \<or> c = ConnectTimeout)"

fun is_Timeout :: "exn_class \<Rightarrow> bool" where
  "is_Timeout c = (c = ConnectTimeout \<or> c = ReadTimeout)"

fun is_JSONDecodeError :: "exn_class \<Rightarrow> bool" where
  "is_JSONDecodeError c = (c = JSONDecodeError)"

fun is_KeyError :: "exn_class \<Rightarrow> bool" where
  "is_KeyError c = (c = KeyError)"

section \<open>Subscripting\<close>

text \<open>
  \<open>container[key]\<close> with a string key and with an integer index, as the interpreter
  evaluates it on each kind of value. A dict with string keys has no integer key, so
  an integer subscript on it raises \<open>KeyError\<close>. \<open>repr_key\<close> is \<open>repr\<close> of a key
  without quote, backslash or control characters, which is what \<open>str(KeyError(k))\<close>
  shows.
\<close>

definition repr_key :: "pystr \<Rightarrow> pystr" where
  "repr_key k = [39] @ k @ [39]"

definition not_subscriptable :: "string \<Rightarrow> exn" where
  "not_subscriptable tp =
     Exn TypeError ([39] @ ascii tp @ [39] @ ascii '' object is not subscriptable'')"

fun getitem_str :: "pyval \<Rightarrow> pystr \<Rightarrow> exn + pyval" where
  "getitem_str (PDict d) k =
     (case map_of d k of Some v \<Rightarrow> Inr v | None \<Rightarrow> Inl (Exn KeyError (repr_key k)))"
| "getitem_str (PList xs) k =
     Inl (Exn TypeError (ascii ''list indices must be integers or slices, not str''))"
| "getitem_str (PStr s) k =
     Inl (Exn TypeError (ascii ''string indices must be integers, not '' @ [39] @ ascii ''str'' @ [39]))"
| "getitem_str PNone k = Inl (not_subscriptable ''NoneType'')"
| "getitem_str (PBool b) k = Inl (not_subscriptable ''bool'')"
| "getitem_str (PInt i) k = Inl (not_subscriptable ''int'')"
| "getitem_str (PFloat f) k = Inl (not_subscriptable ''float'')"

fun getitem_0 :: "pyval \<Rightarrow> exn + pyval" where
  "getitem_0 (PDict d) = Inl (Exn KeyError (ascii ''0''))"
| "getitem_0 (PList []) = Inl (Exn IndexError (ascii ''list index out of range''))"
| "getitem_0 (PList (x # xs)) = Inr x"
| "getitem_0 (PStr []) = Inl (Exn IndexError (ascii ''string index out of range''))"
| "getitem_0 (PStr (c # s)) = Inr (PStr [c])"
| "getitem_0 PNone = Inl (not_subscriptable ''NoneType'')"
| "getitem_0 (PBool b) = Inl (not_subscriptable ''bool'')"
| "getitem_0 (PInt i) = Inl (not_subscriptable ''int'')"
| "getitem_0 (PFloat f) = Inl (not_subscriptable ''float'')"

section \<open>Constants of the module\<close>

definition GROQ_API_URL :: pystr where
  "GROQ_API_URL = ascii ''https://api.groq.com/openai/v1/chat/completions''"

definition MODEL_NAME :: pystr where
  "MODEL_NAME = ascii ''llama3-8b-8192''"

definition SYSTEM_PROMPT :: pystr where
  "SYSTEM_PROMPT = ascii (concat
     [''\<newline>'',
      ''You are Ancy, a warm and inspiring AI travel guide with a poetic soul and adventurous spirit.\<newline>'',
      ''\<newline>'',
      ''Your characteristics:\<newline>'',
      ''- Speak with beautiful, flowing language and travel metaphors\<newline>'',
      ''- Always remain enthusiastic, encouraging, and wise\<newline>'',
      ''- Offer detailed advice about destinations, travel tips, cultural insights, and emotional support\<newline>'',
      ''- Use vivid imagery of places, journeys, and discoveries in your responses\<newline>'',
      ''- Be inspiring and uplifting while providing practical, actionable travel wisdom\<newline>'',
      ''- Share stories and insights that make travelers feel excited about their journeys\<newline>'',
      ''- Keep responses engaging but focused (3-6 sentences typically)\<newline>'',
      ''\<newline>'',
      ''Remember: You are a companion for wanderers, dreamers, and adventurers on their life journeys.\<newline>''])"

definition PLACEHOLDER_KEY :: pystr where
  "PLACEHOLDER_KEY = ascii ''YOUR_GROQ_API_KEY_HERE''"

text \<open>The texts that \<open>_make_api_request\<close> and \<open>chat\<close> return in place of an answer.\<close>

definition AUTH_FAILED :: pystr where
  "AUTH_FAILED =
     0x1F511 # ascii '' Authentication failed. Please check your Groq API key in .env file.''"

definition RATE_LIMITED :: pystr where
  "RATE_LIMITED =
     0x23F3 # ascii '' Rate limit reached. Please wait a moment before trying again.''"

definition api_error :: "nat \<Rightarrow> pystr \<Rightarrow> pystr" where
  "api_error status_code e =
     0x1F6AB # ascii '' API error ('' @ str_nat status_code @ ascii ''): '' @ e"

definition CONNECTION_FAILED :: pystr where
  "CONNECTION_FAILED =
     0x1F310 # ascii '' Connection error. Please check your internet connection.''"

definition TIMED_OUT :: pystr where
  "TIMED_OUT =
     0x23F0 # ascii '' Request timed out. The API might be busy, please try again.''"

definition INVALID_FORMAT :: pystr where
  "INVALID_FORMAT = 0x1F4C4 # ascii '' Invalid response format from API.''"

definition MISSING_PREFIX :: pystr where
  "MISSING_PREFIX = 0x1F50D # ascii '' Unexpected response structure: missing ''"

definition missing_field :: "pystr \<Rightarrow> pystr" where
  "missing_field e = MISSING_PREFIX @ e"

definition unexpected_error :: "pystr \<Rightarrow> pystr" where
  "unexpected_error e = 0x274C # ascii '' Unexpected error: '' @ e"

definition QUIET_PROMPT :: pystr where
  "QUIET_PROMPT =
     0x1F914 # ascii '' I sense the quiet before an adventure... What's stirring in your traveler's heart?''"

section \<open>The HTTP call\<close>

text \<open>
  A turn of the conversation is a dict with the keys \<open>role\<close> and \<open>content\<close>.
\<close>

definition turn :: "pystr \<Rightarrow> pyval \<Rightarrow> pyval" where
  "turn r c = PDict [(ascii ''role'', PStr r), (ascii ''content'', c)]"

record payload =
  model :: pystr
  messages :: "pyval list"
  max_tokens :: nat
  temperature :: pyval
  stream :: bool

record request =
  req_url :: pystr
  req_headers :: "(pystr \<times> pystr) list"
  req_json :: payload
  req_timeout :: nat

text \<open>
  What the client reads of a \<open>requests.Response\<close>: the status, the reason phrase and
  the URL (they make the text of the \<open>HTTPError\<close>), and the body as \<open>response.json()\<close>
  parses it, \<open>None\<close> when the body is not JSON.
\<close>

record response =
  status_code :: nat
  reason :: pystr
  url :: pystr
  body_json :: "pyval option"

text \<open>
  The outcomes of \<open>requests.post\<close>: it returns a response, whatever its status, or
  it raises. \<open>requests\<close> raises \<open>HTTPError\<close> only from \<open>raise_for_status\<close>, so
  the failures of \<open>post\<close> itself are a connection failure, the two timeouts, and
  any other exception; each carries \<open>str(e)\<close>.
\<close>

datatype post_outcome =
    Responded response
  | ConnectionFailed pystr
  | ConnectTimedOut pystr
  | ReadTimedOut pystr
  | OtherFailure pystr

fun outcome_result :: "post_outcome \<Rightarrow> exn + response" where
  "outcome_result (Responded r) = Inr r"
| "outcome_result (ConnectionFailed m) = Inl (Exn ConnectionError m)"
| "outcome_result (ConnectTimedOut m) = Inl (Exn ConnectTimeout m)"
| "outcome_result (ReadTimedOut m) = Inl (Exn ReadTimeout m)"
| "outcome_result (OtherFailure m) = Inl (Exn OtherException m)"

text \<open>
  \<open>Response.raise_for_status\<close>: a status from 400 to 499 is a client error, from 500
  to 599 a server error; it raises when the message it has built is not empty.
\<close>

definition http_error_msg :: "response \<Rightarrow> pystr" where
  "http_error_msg r =
     (if 400 \<le> status_code r \<and> status_code r < 500 then
        str_nat (status_code r) @ ascii '' Client Error: '' @ reason r
          @ ascii '' for url: '' @ url r
      else if 500 \<le> status_code r \<and> status_code r < 600 then
        str_nat (status_code r) @ ascii '' Server Error: '' @ reason r
          @ ascii '' for url: '' @ url r
      else [])"

definition raise_for_status :: "response \<Rightarrow> exn + unit" where
  "raise_for_status r =
     (if http_error_msg r \<noteq> [] then Inl (Exn HTTPError (http_error_msg r)) else Inr ())"

definition response_json :: "response \<Rightarrow> exn + pyval" where
  "response_json r =
     (case body_json r of
        None \<Rightarrow> Inl (Exn JSONDecodeError (ascii ''Expecting value: line 1 column 1 (char 0)''))
      | Some v \<Rightarrow> Inr v)"

section \<open>The store\<close>

text \<open>
  Python lists are mutable objects: the conversation lives in one, and
  \<open>_make_api_request\<close> builds another. The store maps the address of a list to its
  elements; \<open>next_addr\<close> is the first address not yet allocated. The world also
  records the requests sent so far, the session state of the page, and what the page
  has rendered.
\<close>

type_synonym addr = nat

datatype ui_out =
    PageConfig
  | Style
  | ErrorBox
  | SetupInstructions
  | Welcome
  | ClearButton
  | UserBubble pyval
  | AncyBubble pyval
  | Divider
  | ChatForm
  | Spinner
  | Footer

record world =
  heap :: "addr \<Rightarrow> pyval list"
  next_addr :: addr
  sent :: "request list"
  session_messages :: "addr option"
  ancy_initialized :: "bool option"
  rendered :: "ui_out list"

definition new_list :: "pyval list \<Rightarrow> world \<Rightarrow> addr \<times> world" where
  "new_list xs w =
     (next_addr w, w\<lparr>heap := (heap w)(next_addr w := xs), next_addr := Suc (next_addr w)\<rparr>)"

definition list_extend :: "addr \<Rightarrow> pyval list \<Rightarrow> world \<Rightarrow> world" where
  "list_extend a xs w = w\<lparr>heap := (heap w)(a := heap w a @ xs)\<rparr>"

definition list_append :: "addr \<Rightarrow> pyval \<Rightarrow> world \<Rightarrow> world" where
  "list_append a x w = w\<lparr>heap := (heap w)(a := heap w a @ [x])\<rparr>"

text \<open>\<open>xs[-10:]\<close>: the slice starts at \<open>max(len(xs) - 10, 0)\<close>.\<close>

definition slice_last10 :: "'a list \<Rightarrow> 'a list" where
  "slice_last10 xs = drop (length xs - 10) xs"

definition requests_post ::
  "(request \<Rightarrow> post_outcome) \<Rightarrow> request \<Rightarrow> world \<Rightarrow> (exn + response) \<times> world" where
  "requests_post post req w = (outcome_result (post req), w\<lparr>sent := sent w @ [req]\<rparr>)"

section \<open>The client\<close>

record AncyTravelGuide =
  api_key :: pystr

text \<open>
  The \<open>except\<close> clauses of \<open>_make_api_request\<close>, tried in the order of the source:
  the first clause whose class the exception is an instance of handles it. The
  \<open>HTTPError\<close> clause reads the local variable \<open>response\<close>, which is bound only once
  \<open>requests.post\<close> has returned.
\<close>

definition handle_exception :: "exn \<Rightarrow> response option \<Rightarrow> exn + pyval" where
  "handle_exception e response =
     (case e of Exn c m \<Rightarrow>
        if is_HTTPError c then
          (case response of
             None \<Rightarrow>
               Inl (Exn UnboundLocalError
                      (ascii ''cannot access local variable '' @ [39] @ ascii ''response'' @ [39]
                         @ ascii '' where it is not associated with a value''))
           | Some r \<Rightarrow>
               if status_code r = 401 then Inr (PStr AUTH_FAILED)
               else if status_code r = 429 then Inr (PStr RATE_LIMITED)
               else Inr (PStr (api_error (status_code r) m)))
        else if is_ConnectionError c then Inr (PStr CONNECTION_FAILED)
        else if is_Timeout c then Inr (PStr TIMED_OUT)
        else if is_JSONDecodeError c then Inr (PStr INVALID_FORMAT)
        else if is_KeyError c then Inr (PStr (missing_field m))
        else Inr (PStr (unexpected_error m)))"

text \<open>\<open>result["choices"][0]["message"]["content"]\<close>, one subscript after the other.\<close>

definition extract_content :: "pyval \<Rightarrow> exn + pyval" where
  "extract_content result =
     (case getitem_str result (ascii ''choices'') of
        Inl e \<Rightarrow> Inl e
      | Inr choices \<Rightarrow>
     (case getitem_0 choices of
        Inl e \<Rightarrow> Inl e
      | Inr choice \<Rightarrow>
     (case getitem_str choice (ascii ''message'') of
        Inl e \<Rightarrow> Inl e
      | Inr message \<Rightarrow> getitem_str message (ascii ''content''))))"

text \<open>
  The body of the \<open>try\<close>: the value or the exception it ends with, the binding of
  \<open>response\<close> at that point, and the world after it.
\<close>

definition try_body ::
  "(request \<Rightarrow> post_outcome) \<Rightarrow> request \<Rightarrow> world \<Rightarrow> (exn + pyval) \<times> response option \<times> world" where
  "try_body post req w =
     (case requests_post post req w of
        (Inl e, w') \<Rightarrow> (Inl e, None, w')
      | (Inr response, w') \<Rightarrow>
          (case raise_for_status response of
             Inl e \<Rightarrow> (Inl e, Some response, w')
           | Inr u \<Rightarrow>
               (case response_json response of
                  Inl e \<Rightarrow> (Inl e, Some response, w')
                | Inr result \<Rightarrow> (extract_content result, Some response, w'))))"

definition make_headers :: "AncyTravelGuide \<Rightarrow> (pystr \<times> pystr) list" where
  "make_headers self =
     [(ascii ''Authorization'', ascii ''Bearer '' @ api_key self),
      (ascii ''Content-Type'', ascii ''application/json'')]"

text \<open>
  \<open>AncyTravelGuide._make_api_request\<close>. The argument \<open>conversation_history\<close> is the
  address of the caller's list; \<open>messages\<close> is a list of its own.
\<close>

definition make_api_request ::
  "(request \<Rightarrow> post_outcome) \<Rightarrow> AncyTravelGuide \<Rightarrow> pystr \<Rightarrow> addr \<Rightarrow> world
     \<Rightarrow> (exn + pyval) \<times> world" where
  "make_api_request post self user_message conversation_history w =
     (let headers = make_headers self;
          (messages_addr, w1) = new_list [turn (ascii ''system'') (PStr SYSTEM_PROMPT)] w;
          w2 = list_extend messages_addr (slice_last10 (heap w1 conversation_history)) w1;
          w3 = list_append messages_addr (turn (ascii ''user'') (PStr user_message)) w2;
          payload = \<lparr>model = MODEL_NAME, messages = heap w3 messages_addr, max_tokens = 1000,
                     temperature = PFloat (ascii ''0.8''), stream = False\<rparr>;
          (r, response, w4) =
             try_body post \<lparr>req_url = GROQ_API_URL, req_headers = headers, req_json = payload,
                             req_timeout = 30\<rparr> w3
      in (case r of Inr v \<Rightarrow> Inr v | Inl e \<Rightarrow> handle_exception e response, w4))"

text \<open>\<open>AncyTravelGuide.chat\<close>: an empty string is falsy, so \<open>not user_input.strip()\<close>
  holds when nothing is left after stripping.\<close>

definition chat ::
  "(request \<Rightarrow> post_outcome) \<Rightarrow> AncyTravelGuide \<Rightarrow> pystr \<Rightarrow> addr \<Rightarrow> world
     \<Rightarrow> (exn + pyval) \<times> world" where
  "chat post self user_input conversation_history w =
     (if strip user_input = [] then (Inr (PStr QUIET_PROMPT), w)
      else make_api_request post self user_input conversation_history w)"

text \<open>
  \<open>validate_api_key\<close>: \<open>a and b and c\<close> returns the first falsy operand, else the last
  one. The key is what \<open>os.getenv\<close> gives: \<open>None\<close> or a string.
\<close>

definition validate_api_key :: "pystr option \<Rightarrow> pyval" where
  "validate_api_key k =
     (case k of
        None \<Rightarrow> PNone
      | Some s \<Rightarrow>
          if \<not> truthy (PStr s) then PStr s
          else if \<not> (s \<noteq> PLACEHOLDER_KEY) then PBool False
          else PBool (length s > 10))"

section \<open>The page\<close>

text \<open>
  One run of \<open>main\<close>, the script that the page framework executes on every
  interaction. The widgets give the run its input; \<open>st.stop()\<close> and \<open>st.rerun()\<close> end
  it early, and an exception that nothing catches ends it too. Markup and styling are
  recorded by kind only.
\<close>

record widgets =
  clear_clicked :: bool
  user_input :: pystr
  submit_button :: bool

datatype run_end = Stopped | Rerun | Completed | Crashed exn

definition render :: "ui_out \<Rightarrow> world \<Rightarrow> world" where
  "render x w = w\<lparr>rendered := rendered w @ [x]\<rparr>"

definition initialize_session_state :: "world \<Rightarrow> world" where
  "initialize_session_state w =
     (let w1 = (case session_messages w of
                  None \<Rightarrow> (let (a, w') = new_list [] w in w'\<lparr>session_messages := Some a\<rparr>)
                | Some a \<Rightarrow> w)
      in (case ancy_initialized w1 of
            None \<Rightarrow> w1\<lparr>ancy_initialized := Some False\<rparr>
          | Some b \<Rightarrow> w1))"

definition attribute_error :: "string \<Rightarrow> exn" where
  "attribute_error name =
     Exn AttributeError
       (ascii ''st.session_state has no attribute '' @ [34] @ ascii name @ [34])"

text \<open>
  The loop that shows the stored conversation, one bubble per turn. It gives the
  exception that stopped it, if any, and the world with the bubbles shown so far.
\<close>

fun display_history :: "pyval list \<Rightarrow> world \<Rightarrow> exn option \<times> world" where
  "display_history [] w = (None, w)"
| "display_history (message # rest) w =
     (case getitem_str message (ascii ''role'') of
        Inl e \<Rightarrow> (Some e, w)
      | Inr r \<Rightarrow>
          (case getitem_str message (ascii ''content'') of
             Inl e \<Rightarrow> (Some e, w)
           | Inr c \<Rightarrow>
               display_history rest
                 (render (if r = PStr (ascii ''user'') then UserBubble c else AncyBubble c) w)))"

text \<open>The part of \<open>main\<close> after the clear button: transcript, form, submission.\<close>

definition handle_page ::
  "(request \<Rightarrow> post_outcome) \<Rightarrow> AncyTravelGuide \<Rightarrow> widgets \<Rightarrow> world
     \<Rightarrow> run_end \<times> AncyTravelGuide option \<times> world" where
  "handle_page post ancy ui w =
     (case session_messages w of
        None \<Rightarrow> (Crashed (attribute_error ''messages''), Some ancy, w)
      | Some a \<Rightarrow>
          (case display_history (heap w a) w of
             (Some e, w1) \<Rightarrow> (Crashed e, Some ancy, w1)
           | (None, w1) \<Rightarrow>
               (let w2 = render ChatForm (render Divider w1) in
                if submit_button ui \<and> user_input ui \<noteq> [] then
                  (let w3 = list_append a (turn (ascii ''user'') (PStr (user_input ui))) w2;
                       (r, w4) = chat post ancy (user_input ui) a (render Spinner w3)
                   in (case r of
                         Inl e \<Rightarrow> (Crashed e, Some ancy, w4)
                       | Inr response \<Rightarrow>
                           (Rerun, Some ancy,
                            list_append a (turn (ascii ''assistant'') response) w4)))
                else (Completed, Some ancy, render Footer (render Divider w2)))))"

definition halt_for_setup :: "world \<Rightarrow> run_end \<times> AncyTravelGuide option \<times> world" where
  "halt_for_setup w = (Stopped, None, render SetupInstructions (render ErrorBox w))"

definition main ::
  "pystr option \<Rightarrow> (request \<Rightarrow> post_outcome) \<Rightarrow> widgets \<Rightarrow> world
     \<Rightarrow> run_end \<times> AncyTravelGuide option \<times> world" where
  "main GROQ_API_KEY post ui w =
     (let w1 = initialize_session_state (render Style (render PageConfig w)) in
      (case GROQ_API_KEY of
         None \<Rightarrow> halt_for_setup w1
       | Some key \<Rightarrow>
           if \<not> truthy (PStr key) \<or> \<not> truthy (validate_api_key GROQ_API_KEY) then
             halt_for_setup w1
           else
             (let ancy = \<lparr>api_key = key\<rparr> in
              (case ancy_initialized w1 of
                 None \<Rightarrow> (Crashed (attribute_error ''ancy_initialized''), Some ancy, w1)
               | Some shown \<Rightarrow>
                   (let w2 = (if \<not> shown then (render Welcome w1)\<lparr>ancy_initialized := Some True\<rparr>
                              else w1);
                        w3 = render ClearButton w2
                    in if clear_clicked ui then
                         (let (a, w4) = new_list [] w3
                          in (Rerun, Some ancy, w4\<lparr>session_messages := Some a\<rparr>))
                       else handle_page post ancy ui w3)))))"

section \<open>Auxiliary definitions for the statements\<close>

text \<open>
  The request view in the words of the specification: the preamble, the last
  \<open>min(10, len(history))\<close> turns of the history, the new user turn. \<open>last_n\<close>
  takes the last \<open>n\<close> elements of a list in their order.
\<close>

definition last_n :: "nat \<Rightarrow> 'a list \<Rightarrow> 'a list" where
  "last_n n xs = rev (take n (rev xs))"

definition request_view :: "pyval list \<Rightarrow> pystr \<Rightarrow> pyval list" where
  "request_view history user_text =
     [turn (ascii ''system'') (PStr SYSTEM_PROMPT)]
       @ last_n (min 10 (length history)) history
       @ [turn (ascii ''user'') (PStr user_text)]"

text \<open>
  The list that \<open>_make_api_request\<close> has built when it sends the request, and the
  request around it.
\<close>

definition built_messages :: "pyval list \<Rightarrow> pystr \<Rightarrow> pyval list" where
  "built_messages history user_message =
     turn (ascii ''system'') (PStr SYSTEM_PROMPT) # slice_last10 history
       @ [turn (ascii ''user'') (PStr user_message)]"

definition outgoing_request :: "AncyTravelGuide \<Rightarrow> pyval list \<Rightarrow> request" where
  "outgoing_request self msgs =
     \<lparr>req_url = GROQ_API_URL, req_headers = make_headers self,
      req_json = \<lparr>model = MODEL_NAME, messages = msgs, max_tokens = 1000,
                   temperature = PFloat (ascii ''0.8''), stream = False\<rparr>,
      req_timeout = 30\<rparr>"

text \<open>
  What the \<open>try\<close> statement makes of one outcome of \<open>requests.post\<close>; the lemma
  \<open>make_api_request_reply\<close> shows that this is the value \<open>_make_api_request\<close> returns.
  \<open>simulated\<close> is a network that answers every request with the same outcome.
\<close>

definition reply_to :: "post_outcome \<Rightarrow> exn + pyval" where
  "reply_to outcome =
     (case outcome_result outcome of
        Inl e \<Rightarrow> handle_exception e None
      | Inr r \<Rightarrow>
          (case raise_for_status r of
             Inl e \<Rightarrow> handle_exception e (Some r)
           | Inr u \<Rightarrow>
               (case response_json r of
                  Inl e \<Rightarrow> handle_exception e (Some r)
                | Inr j \<Rightarrow>
                    (case extract_content j of
                       Inl e \<Rightarrow> handle_exception e (Some r)
                     | Inr v \<Rightarrow> Inr v))))"

definition simulated :: "post_outcome \<Rightarrow> request \<Rightarrow> post_outcome" where
  "simulated outcome req = outcome"

text \<open>
  The texts of the error mapping, and the test \<open>isinstance(v, str)\<close>.
\<close>

definition mapped_text :: "pystr \<Rightarrow> bool" where
  "mapped_text s \<longleftrightarrow>
     s = AUTH_FAILED \<or> s = RATE_LIMITED \<or> (\<exists>n m. s = api_error n m)
     \<or> s = CONNECTION_FAILED \<or> s = TIMED_OUT \<or> s = INVALID_FORMAT
     \<or> (\<exists>m. s = missing_field m) \<or> (\<exists>m. s = unexpected_error m)"


text \<open>
  The stored conversation of the page, the invariant that its list is allocated, and
  what the transcript loop needs of a stored turn: a dict with the keys \<open>role\<close> and
  \<open>content\<close>.
\<close>

definition is_turn :: "pyval \<Rightarrow> bool" where
  "is_turn m =
     (case m of
        PDict d \<Rightarrow> map_of d (ascii ''role'') \<noteq> None \<and> map_of d (ascii ''content'') \<noteq> None
      | _ \<Rightarrow> False)"

definition stored_conversation :: "world \<Rightarrow> pyval list" where
  "stored_conversation w = (case session_messages w of None \<Rightarrow> [] | Some a \<Rightarrow> heap w a)"

definition session_allocated :: "world \<Rightarrow> bool" where
  "session_allocated w = (case session_messages w of None \<Rightarrow> True | Some a \<Rightarrow> a < next_addr w)"

section \<open>Concrete inputs\<close>

text \<open>
  A conversation of twelve turns in a world where it is the only list, a client with
  a well-formed key, a form submission, and response bodies.
\<close>

definition example_history :: "pyval list" where
  "example_history = map (\<lambda>n. turn (ascii ''user'') (PInt (int n))) [0 ..< 12]"

definition example_world :: world where
  "example_world =
     \<lparr>heap = (\<lambda>a. [])(0 := example_history), next_addr = 1, sent = [],
      session_messages = Some 0, ancy_initialized = Some True, rendered = []\<rparr>"

definition example_key :: pystr where
  "example_key = ascii ''gsk_0123456789abcdef''"

definition example_client :: AncyTravelGuide where
  "example_client = \<lparr>api_key = example_key\<rparr>"

definition example_widgets :: widgets where
  "example_widgets = \<lparr>clear_clicked = False, user_input = ascii ''hi'', submit_button = True\<rparr>"

definition short_history :: "pyval list" where
  "short_history =
     [turn (ascii ''user'') (PStr (ascii ''Paris?'')),
      turn (ascii ''assistant'') (PStr (ascii ''Go in spring.''))]"

definition short_world :: world where
  "short_world =
     \<lparr>heap = (\<lambda>a. [])(0 := short_history), next_addr = 1, sent = [],
      session_messages = Some 0, ancy_initialized = Some True, rendered = []\<rparr>"

definition blank_widgets :: widgets where
  "blank_widgets = \<lparr>clear_clicked = False, user_input = ascii ''   '', submit_button = True\<rparr>"

definition example_response :: "nat \<Rightarrow> pyval option \<Rightarrow> response" where
  "example_response status body =
     \<lparr>status_code = status, reason = ascii ''reason'', url = GROQ_API_URL, body_json = body\<rparr>"

definition bonjour_body :: pyval where
  "bonjour_body =
     PDict [(ascii ''choices'',
             PList [PDict [(ascii ''message'',
                            PDict [(ascii ''content'', PStr (ascii ''Bonjour!''))])]])]"


definition empty_choices_body :: pyval where
  "empty_choices_body = PDict [(ascii ''choices'', PList [])]"

definition no_choices_body :: pyval where
  "no_choices_body = PDict [(ascii ''id'', PStr (ascii ''x''))]"

definition no_message_body :: pyval where
  "no_message_body = PDict [(ascii ''choices'', PList [PDict [(ascii ''index'', PInt 0)]])]"

definition no_content_body :: pyval where
  "no_content_body =
     PDict [(ascii ''choices'',
             PList [PDict [(ascii ''message'', PDict [(ascii ''role'', PStr (ascii ''assistant''))])]])]"

section \<open>Properties of the client\<close>

subsection \<open>Stripping and slicing\<close>

lemma dropWhile_all_space:
  "(\<forall>c\<in>set (dropWhile py_isspace s). py_isspace c) \<Longrightarrow> dropWhile py_isspace s = []"
proof (cases "dropWhile py_isspace s")
  case Nil
  then show ?thesis by simp
next
  case (Cons x xs)
  assume all: "\<forall>c\<in>set (dropWhile py_isspace s). py_isspace c"
  from Cons have "\<not> py_isspace x"
    using hd_dropWhile [of py_isspace s] by simp
  moreover from Cons all have "py_isspace x" by simp
  ultimately show ?thesis by simp
qed

lemma strip_empty_iff: "strip s = [] \<longleftrightarrow> (\<forall>c\<in>set s. py_isspace c)"
proof
  assume "strip s = []"
  then have "\<forall>c\<in>set (dropWhile py_isspace s). py_isspace c"
    by (simp add: strip_def)
  then have "dropWhile py_isspace s = []"
    by (rule dropWhile_all_space)
  then show "\<forall>c\<in>set s. py_isspace c"
    by simp
next
  assume "\<forall>c\<in>set s. py_isspace c"
  then have "dropWhile py_isspace s = []"
    by (induction s) simp_all
  then show "strip s = []"
    by (simp only: strip_def rev.simps dropWhile.simps)
qed

lemma strip_hi: "strip (ascii ''hi'') \<noteq> []"
  by (simp add: strip_def ascii_def py_isspace_def)

lemma slice_last10_last_n: "slice_last10 xs = last_n (min 10 (length xs)) xs"
  by (simp add: slice_last10_def last_n_def rev_take min_def)

lemma built_messages_view: "built_messages H u = request_view H u"
  by (simp add: built_messages_def request_view_def slice_last10_last_n)

lemma request_view_short:
  "length history \<le> 10 \<Longrightarrow>
     request_view history u =
       turn (ascii ''system'') (PStr SYSTEM_PROMPT) # history @ [turn (ascii ''user'') (PStr u)]"
  by (simp add: request_view_def last_n_def min_def)

lemma request_view_long:
  "10 < length history \<Longrightarrow>
     request_view history u =
       turn (ascii ''system'') (PStr SYSTEM_PROMPT) # drop (length history - 10) history
         @ [turn (ascii ''user'') (PStr u)]"
  by (simp add: request_view_def last_n_def min_def rev_take)

lemma request_view_length:
  "length (request_view history u) = min 10 (length history) + 2"
  by (simp add: request_view_def last_n_def)

lemma request_view_ends:
  "\<exists>front. request_view (H @ [x]) t = front @ [x, turn (ascii ''user'') (PStr t)]"
proof -
  obtain k where k: "min 10 (length (H @ [x])) = Suc k"
    by (cases "min 10 (length (H @ [x]))") (simp_all add: min_def split: if_splits)
  have "last_n (Suc k) (H @ [x]) = last_n k H @ [x]"
    by (simp add: last_n_def)
  then have "request_view (H @ [x]) t =
      (turn (ascii ''system'') (PStr SYSTEM_PROMPT) # last_n k H) @ [x, turn (ascii ''user'') (PStr t)]"
    using k by (simp add: request_view_def)
  then show ?thesis by blast
qed

subsection \<open>The world after a request\<close>

lemma try_body_world: "snd (snd (try_body post req w)) = w\<lparr>sent := sent w @ [req]\<rparr>"
  by (simp add: try_body_def requests_post_def split: sum.splits)

lemma make_api_request_world:
  assumes "h < next_addr w"
  shows "snd (make_api_request post self u h w) =
           w\<lparr>heap := (heap w)(next_addr w := built_messages (heap w h) u),
             next_addr := Suc (next_addr w),
             sent := sent w @ [outgoing_request self (built_messages (heap w h) u)]\<rparr>"
  using assms
  by (simp add: make_api_request_def Let_def split_def new_list_def list_extend_def list_append_def
      try_body_world outgoing_request_def built_messages_def)

lemma chat_nonempty:
  "strip u \<noteq> [] \<Longrightarrow> chat post self u h w = make_api_request post self u h w"
  by (simp add: chat_def)

subsection \<open>The value of a request\<close>

lemma try_body_reply:
  "(case try_body post req w of (r, response, w') \<Rightarrow>
      (case r of Inr v \<Rightarrow> Inr v | Inl e \<Rightarrow> handle_exception e response)) = reply_to (post req)"
  by (simp add: try_body_def requests_post_def reply_to_def split: sum.splits)

lemma make_api_request_reply:
  "\<exists>req. fst (make_api_request post self u h w) = reply_to (post req)"
proof -
  have "\<exists>req w3. make_api_request post self u h w =
          (case try_body post req w3 of (r, response, w4) \<Rightarrow>
             (case r of Inr v \<Rightarrow> Inr v | Inl e \<Rightarrow> handle_exception e response, w4))"
    by (simp add: make_api_request_def Let_def split_def) blast
  then obtain req w3 where
    "make_api_request post self u h w =
       (case try_body post req w3 of (r, response, w4) \<Rightarrow>
          (case r of Inr v \<Rightarrow> Inr v | Inl e \<Rightarrow> handle_exception e response, w4))"
    by blast
  then have "fst (make_api_request post self u h w) = reply_to (post req)"
    using try_body_reply [of post req w3] by (simp add: split_def)
  then show ?thesis ..
qed

lemma chat_simulated:
  "strip u \<noteq> [] \<Longrightarrow> fst (chat (simulated outcome) self u h w) = reply_to outcome"
  using make_api_request_reply [of "simulated outcome" self u h w]
  by (simp add: chat_nonempty simulated_def)

lemma http_error_msg_nonempty:
  "400 \<le> status_code r \<Longrightarrow> status_code r < 600 \<Longrightarrow> http_error_msg r \<noteq> []"
  by (simp add: http_error_msg_def ascii_def)

lemma http_error_msg_empty:
  "status_code r < 400 \<or> 600 \<le> status_code r \<Longrightarrow> http_error_msg r = []"
  by (auto simp: http_error_msg_def)

lemma reply_to_http_error:
  assumes "400 \<le> status_code r" and "status_code r < 600"
  shows "reply_to (Responded r) =
           Inr (PStr (if status_code r = 401 then AUTH_FAILED
                      else if status_code r = 429 then RATE_LIMITED
                      else api_error (status_code r) (http_error_msg r)))"
  using http_error_msg_nonempty [OF assms]
  by (simp add: reply_to_def raise_for_status_def handle_exception_def)

lemma reply_to_ok:
  assumes "200 \<le> status_code r" and "status_code r < 300" and "body_json r = Some j"
  shows "reply_to (Responded r) =
           (case extract_content j of Inl e \<Rightarrow> handle_exception e (Some r) | Inr v \<Rightarrow> Inr v)"
  using assms http_error_msg_empty [of r]
  by (simp add: reply_to_def raise_for_status_def response_json_def)

lemma handle_exception_bound:
  "\<exists>s. handle_exception e (Some r) = Inr (PStr s) \<and> mapped_text s"
proof (cases e)
  case (Exn c m)
  then show ?thesis
    by (auto simp: handle_exception_def mapped_text_def)
qed

lemma handle_exception_unbound:
  "c \<noteq> HTTPError \<Longrightarrow> \<exists>s. handle_exception (Exn c m) None = Inr (PStr s) \<and> mapped_text s"
  by (auto simp: handle_exception_def mapped_text_def)

lemma reply_to_failure:
  "\<exists>s. reply_to (ConnectionFailed m) = Inr (PStr s) \<and> mapped_text s"
  "\<exists>s. reply_to (ConnectTimedOut m) = Inr (PStr s) \<and> mapped_text s"
  "\<exists>s. reply_to (ReadTimedOut m) = Inr (PStr s) \<and> mapped_text s"
  "\<exists>s. reply_to (OtherFailure m) = Inr (PStr s) \<and> mapped_text s"
  by (simp_all add: reply_to_def handle_exception_unbound)

lemma reply_to_response:
  "(\<exists>s. reply_to (Responded r) = Inr (PStr s) \<and> mapped_text s)
   \<or> (\<exists>j v. (status_code r < 400 \<or> 600 \<le> status_code r) \<and> body_json r = Some j
              \<and> extract_content j = Inr v \<and> reply_to (Responded r) = Inr v)"
proof (cases "raise_for_status r")
  case (Inl e)
  then show ?thesis
    using handle_exception_bound [of e r] by (simp add: reply_to_def)
next
  case ok: (Inr u)
  then have "http_error_msg r = []"
    by (simp add: raise_for_status_def split: if_splits)
  then have "\<not> (400 \<le> status_code r \<and> status_code r < 600)"
    using http_error_msg_nonempty [of r] by blast
  then have status: "status_code r < 400 \<or> 600 \<le> status_code r"
    by linarith
  show ?thesis
  proof (cases "body_json r")
    case None
    then show ?thesis
      using ok handle_exception_bound [of _ r]
      by (simp add: reply_to_def response_json_def)
  next
    case (Some j)
    show ?thesis
    proof (cases "extract_content j")
      case (Inl e)
      then show ?thesis
        using ok Some handle_exception_bound [of e r]
        by (simp add: reply_to_def response_json_def)
    next
      case (Inr v)
      then show ?thesis
        using ok Some status
        by (simp add: reply_to_def response_json_def)
    qed
  qed
qed

lemma reply_to_returns: "\<exists>v. reply_to outcome = Inr v"
proof (cases outcome)
  case (Responded r)
  then show ?thesis using reply_to_response [of r] by blast
next
  case (ConnectionFailed m)
  then show ?thesis using reply_to_failure(1) [of m] by blast
next
  case (ConnectTimedOut m)
  then show ?thesis using reply_to_failure(2) [of m] by blast
next
  case (ReadTimedOut m)
  then show ?thesis using reply_to_failure(3) [of m] by blast
next
  case (OtherFailure m)
  then show ?thesis using reply_to_failure(4) [of m] by blast
qed

lemma make_api_request_returns: "\<exists>v. fst (make_api_request post self u h w) = Inr v"
  using make_api_request_reply [of post self u h w] reply_to_returns by metis

lemma example_response_ok:
  "200 \<le> status_code (example_response 200 body) \<and> status_code (example_response 200 body) < 300
   \<and> body_json (example_response 200 (Some j)) = Some j"
  by (simp add: example_response_def)

lemma example_ok_bounds:
  "200 \<le> status_code (example_response 200 body)" "status_code (example_response 200 body) < 300"
  by (simp_all add: example_response_def)

lemma chat_example_ok:
  "fst (chat (simulated (Responded (example_response 200 (Some j))))
          example_client (ascii ''hi'') 0 example_world)
     = (case extract_content j of
          Inl e \<Rightarrow> handle_exception e (Some (example_response 200 (Some j)))
        | Inr v \<Rightarrow> Inr v)"
  using example_response_ok
  by (simp add: chat_simulated [OF strip_hi] reply_to_ok)

subsection \<open>The page\<close>

lemma display_history_turns:
  "\<forall>m\<in>set ms. is_turn m \<Longrightarrow>
     \<exists>out. display_history ms w = (None, w\<lparr>rendered := rendered w @ out\<rparr>)"
proof (induction ms arbitrary: w)
  case Nil
  have "w = w\<lparr>rendered := rendered w @ []\<rparr>" by simp
  then show ?case by (metis display_history.simps(1))
next
  case (Cons m ms)
  from Cons.prems obtain d r c where m: "m = PDict d"
    and r: "map_of d (ascii ''role'') = Some r" and c: "map_of d (ascii ''content'') = Some c"
    by (auto simp: is_turn_def split: pyval.splits)
  let ?b = "if r = PStr (ascii ''user'') then UserBubble c else AncyBubble c"
  from Cons.prems have "\<forall>m\<in>set ms. is_turn m" by simp
  from Cons.IH [OF this, of "render ?b w"] obtain out where
    "display_history ms (render ?b w)
       = (None, (render ?b w)\<lparr>rendered := rendered (render ?b w) @ out\<rparr>)"
    by blast
  then have "display_history (m # ms) w = (None, w\<lparr>rendered := rendered w @ (?b # out)\<rparr>)"
    using m r c by (simp add: render_def)
  then show ?case by blast
qed

lemma handle_page_submit:
  assumes a: "session_messages w = Some a" and alloc: "a < next_addr w"
    and turns: "\<forall>m\<in>set (heap w a). is_turn m"
    and submit: "submit_button ui" and input: "user_input ui \<noteq> []"
  shows "\<exists>wc response wr.
           session_messages wc = Some a
           \<and> heap wc a = heap w a @ [turn (ascii ''user'') (PStr (user_input ui))]
           \<and> sent wc = sent w
           \<and> chat post ancy (user_input ui) a wc = (Inr response, wr)
           \<and> handle_page post ancy ui w
               = (Rerun, Some ancy, list_append a (turn (ascii ''assistant'') response) wr)
           \<and> session_messages wr = Some a
           \<and> heap wr a = heap w a @ [turn (ascii ''user'') (PStr (user_input ui))]
           \<and> sent wr = sent w @
                (if strip (user_input ui) = [] then []
                 else [outgoing_request ancy
                         (built_messages (heap w a @ [turn (ascii ''user'') (PStr (user_input ui))])
                            (user_input ui))])"
proof -
  let ?u = "turn (ascii ''user'') (PStr (user_input ui))"
  obtain out where disp:
    "display_history (heap w a) w = (None, w\<lparr>rendered := rendered w @ out\<rparr>)"
    using display_history_turns [OF turns] by blast
  define ws where
    "ws = render Spinner (list_append a ?u
            (render ChatForm (render Divider (w\<lparr>rendered := rendered w @ out\<rparr>))))"
  have ws: "heap ws a = heap w a @ [?u]" "next_addr ws = next_addr w" "sent ws = sent w"
    "session_messages ws = Some a"
    by (simp_all add: ws_def render_def list_append_def a)
  have page: "handle_page post ancy ui w =
      (case chat post ancy (user_input ui) a ws of (r, w4) \<Rightarrow>
         (case r of
            Inl e \<Rightarrow> (Crashed e, Some ancy, w4)
          | Inr response \<Rightarrow>
              (Rerun, Some ancy, list_append a (turn (ascii ''assistant'') response) w4)))"
    using submit input by (simp add: handle_page_def a disp ws_def Let_def)
  obtain response wr where call: "chat post ancy (user_input ui) a ws = (Inr response, wr)"
    and wr: "session_messages wr = Some a" "heap wr a = heap w a @ [?u]"
      "sent wr = sent w @
         (if strip (user_input ui) = [] then []
          else [outgoing_request ancy (built_messages (heap w a @ [?u]) (user_input ui))])"
  proof (cases "strip (user_input ui) = []")
    case True
    then have "chat post ancy (user_input ui) a ws = (Inr (PStr QUIET_PROMPT), ws)"
      by (simp add: chat_def)
    then show ?thesis
      using True ws that by simp
  next
    case False
    obtain v where v: "fst (make_api_request post ancy (user_input ui) a ws) = Inr v"
      using make_api_request_returns by blast
    have alloc': "a < next_addr ws" using alloc ws by simp
    have "chat post ancy (user_input ui) a ws =
            (Inr v, snd (make_api_request post ancy (user_input ui) a ws))"
      using False v by (simp add: chat_def prod_eq_iff)
    moreover have "a \<noteq> next_addr ws" using alloc' by simp
    ultimately show ?thesis
      using False ws that [of v "snd (make_api_request post ancy (user_input ui) a ws)"]
      by (simp add: make_api_request_world [OF alloc'])
  qed
  have "handle_page post ancy ui w
          = (Rerun, Some ancy, list_append a (turn (ascii ''assistant'') response) wr)"
    using call by (simp add: page)
  then show ?thesis
    using ws call wr by blast
qed

lemma initialize_session_state_props:
  assumes "session_allocated w"
  shows "\<exists>a. session_messages (initialize_session_state w) = Some a
           \<and> a < next_addr (initialize_session_state w)
           \<and> heap (initialize_session_state w) a = stored_conversation w
           \<and> sent (initialize_session_state w) = sent w
           \<and> rendered (initialize_session_state w) = rendered w
           \<and> ancy_initialized (initialize_session_state w) \<noteq> None"
  using assms
  by (auto simp: initialize_session_state_def session_allocated_def stored_conversation_def
      new_list_def Let_def split: option.splits)

lemma valid_key_nonempty: "truthy (validate_api_key (Some key)) \<Longrightarrow> key \<noteq> []"
  by (auto simp: validate_api_key_def split: if_splits)

lemma example_key_valid: "truthy (validate_api_key (Some example_key))"
  by (simp add: validate_api_key_def example_key_def PLACEHOLDER_KEY_def ascii_def)

lemma example_world_allocated: "session_allocated example_world"
  by (simp add: session_allocated_def example_world_def)

lemma example_world_turns: "list_all is_turn (stored_conversation example_world)"
  by (simp add: list_all_iff stored_conversation_def example_world_def example_history_def is_turn_def
      turn_def ascii_def)

lemma main_submission:
  assumes valid: "truthy (validate_api_key (Some key))"
    and alloc: "session_allocated w"
    and turns: "list_all is_turn (stored_conversation w)"
    and noclear: "\<not> clear_clicked ui"
    and submit: "submit_button ui" and input: "user_input ui \<noteq> []"
  shows "\<exists>a wc response wr.
           session_messages wc = Some a
           \<and> stored_conversation wc =
                stored_conversation w @ [turn (ascii ''user'') (PStr (user_input ui))]
           \<and> sent wc = sent w
           \<and> chat post \<lparr>api_key = key\<rparr> (user_input ui) a wc = (Inr response, wr)
           \<and> main (Some key) post ui w =
                (Rerun, Some \<lparr>api_key = key\<rparr>,
                 list_append a (turn (ascii ''assistant'') response) wr)
           \<and> stored_conversation (list_append a (turn (ascii ''assistant'') response) wr) =
                stored_conversation w @ [turn (ascii ''user'') (PStr (user_input ui)),
                                         turn (ascii ''assistant'') response]
           \<and> sent (list_append a (turn (ascii ''assistant'') response) wr) = sent w @
                (if strip (user_input ui) = [] then []
                 else [outgoing_request \<lparr>api_key = key\<rparr>
                         (request_view
                            (stored_conversation w @ [turn (ascii ''user'') (PStr (user_input ui))])
                            (user_input ui))])"
proof -
  let ?u = "turn (ascii ''user'') (PStr (user_input ui))"
  let ?ancy = "\<lparr>api_key = key\<rparr>"
  define w0 where "w0 = render Style (render PageConfig w)"
  define w1 where "w1 = initialize_session_state w0"
  have w0: "session_allocated w0" "stored_conversation w0 = stored_conversation w" "sent w0 = sent w"
    using alloc
    by (simp_all add: w0_def render_def session_allocated_def stored_conversation_def
        split: option.splits)
  obtain a where a: "session_messages w1 = Some a" "a < next_addr w1"
      "heap w1 a = stored_conversation w" "sent w1 = sent w"
    and init: "ancy_initialized w1 \<noteq> None"
    using initialize_session_state_props [OF w0(1)] w0 by (auto simp: w1_def)
  obtain shown where shown: "ancy_initialized w1 = Some shown"
    using init by blast
  define w3 where
    "w3 = render ClearButton
            (if \<not> shown then (render Welcome w1)\<lparr>ancy_initialized := Some True\<rparr> else w1)"
  have w3: "session_messages w3 = Some a" "a < next_addr w3"
      "heap w3 a = stored_conversation w" "sent w3 = sent w"
    using a by (simp_all add: w3_def render_def)
  have run: "main (Some key) post ui w = handle_page post ?ancy ui w3"
    using valid valid_key_nonempty [OF valid] noclear shown
    by (simp add: main_def Let_def w0_def [symmetric] w1_def [symmetric] w3_def)
  have turns3: "\<forall>m\<in>set (heap w3 a). is_turn m"
    using turns w3 by (simp add: list_all_iff)
  obtain wc response wr where page:
      "session_messages wc = Some a" "heap wc a = heap w3 a @ [?u]" "sent wc = sent w3"
      "chat post ?ancy (user_input ui) a wc = (Inr response, wr)"
      "handle_page post ?ancy ui w3
         = (Rerun, Some ?ancy, list_append a (turn (ascii ''assistant'') response) wr)"
      "session_messages wr = Some a" "heap wr a = heap w3 a @ [?u]"
      "sent wr = sent w3 @
         (if strip (user_input ui) = [] then []
          else [outgoing_request ?ancy (built_messages (heap w3 a @ [?u]) (user_input ui))])"
    using handle_page_submit [OF w3(1) w3(2) turns3 submit input, of post ?ancy] by blast
  let ?w' = "list_append a (turn (ascii ''assistant'') response) wr"
  have "stored_conversation wc = stored_conversation w @ [?u]"
    using page w3 by (simp add: stored_conversation_def)
  moreover have "sent wc = sent w"
    using page w3 by simp
  moreover have "main (Some key) post ui w = (Rerun, Some ?ancy, ?w')"
    using run page by simp
  moreover have "stored_conversation ?w' =
      stored_conversation w @ [?u, turn (ascii ''assistant'') response]"
    using page w3 by (simp add: stored_conversation_def list_append_def)
  moreover have "sent ?w' = sent w @
         (if strip (user_input ui) = [] then []
          else [outgoing_request ?ancy (request_view (stored_conversation w @ [?u]) (user_input ui))])"
    using page w3 by (simp add: built_messages_view list_append_def)
  ultimately show ?thesis
    using page(1,4) by blast
qed

lemma short_world_allocated: "session_allocated short_world"
  by (simp add: session_allocated_def short_world_def)

lemma short_world_turns: "list_all is_turn (stored_conversation short_world)"
  by (simp add: stored_conversation_def short_world_def short_history_def is_turn_def
      turn_def ascii_def)

lemma short_world_conversation:
  "stored_conversation short_world = short_history" "sent short_world = []"
  by (simp_all add: stored_conversation_def short_world_def)

section \<open>The claims\<close>

text \<open>
  Claim C1. For every history and every \<open>user_text\<close> that is not empty after
  stripping, \<open>chat\<close> sends exactly one request, and the \<open>messages\<close> of its payload
  are the system preamble, then the last \<open>min(10, len(history))\<close> entries of the history
  in order, then the turn \<open>{role: user, content: user_text}\<close>. The history is the list
  at an allocated address. By \<open>request_view_short\<close> the middle part is the whole
  history when it has at most ten entries, and by \<open>request_view_long\<close> it is the last
  ten otherwise.
\<close>

theorem request_payload_view:
  assumes "strip user_text \<noteq> []" and "history < next_addr w"
  shows "\<exists>req. sent (snd (chat post self user_text history w)) = sent w @ [req]
           \<and> messages (req_json req) = request_view (heap w history) user_text"
  using assms
  by (simp add: chat_nonempty make_api_request_world built_messages_view outgoing_request_def)

theorem request_payload_view_witness:
  "strip (ascii ''hi'') \<noteq> [] \<and> 0 < next_addr example_world
   \<and> (\<exists>req. sent (snd (chat (\<lambda>r. OtherFailure []) example_client (ascii ''hi'') 0 example_world))
                = sent example_world @ [req]
           \<and> messages (req_json req) = request_view (heap example_world 0) (ascii ''hi''))"
proof -
  have h: "0 < next_addr example_world"
    by (simp add: example_world_def)
  show ?thesis
    using strip_hi h request_payload_view [OF strip_hi h] by blast
qed



text \<open>
  Claim C3. For every \<open>user_text\<close> that is empty after stripping, \<open>chat\<close> returns
  the fixed prompt for input and leaves the world as it was, whatever the history: no
  request is sent. By \<open>strip_empty_iff\<close> these are the strings of whitespace only,
  the empty string among them.
\<close>

theorem quiet_prompt_without_request:
  "strip user_text = [] \<Longrightarrow>
     chat post self user_text history w = (Inr (PStr QUIET_PROMPT), w)"
  by (simp add: chat_def)

theorem quiet_prompt_without_request_witness:
  "strip (ascii ''   '') = []
   \<and> chat (\<lambda>r. OtherFailure []) example_client (ascii ''   '') 0 example_world
        = (Inr (PStr QUIET_PROMPT), example_world)"
proof -
  have h: "strip (ascii ''   '') = []"
    by (simp add: strip_def ascii_def py_isspace_def)
  show ?thesis
    using h quiet_prompt_without_request [OF h] by blast
qed

text \<open>
  Claim C4. For every response with an HTTP error status (400 to 599), \<open>chat\<close>
  returns, without raising, the authentication message when the status is 401, else
  the rate-limit message when it is 429, else the API-error message with the status
  code in it, followed by the text of the \<open>HTTPError\<close>.
\<close>

theorem http_error_messages:
  assumes "strip user_text \<noteq> []" and "400 \<le> status_code r" and "status_code r < 600"
  shows "fst (chat (simulated (Responded r)) self user_text history w) =
           Inr (PStr (if status_code r = 401 then AUTH_FAILED
                      else if status_code r = 429 then RATE_LIMITED
                      else 0x1F6AB # ascii '' API error ('' @ str_nat (status_code r)
                             @ ascii ''): '' @ http_error_msg r))"
  using assms reply_to_http_error [of r]
  by (simp add: chat_simulated api_error_def)

theorem http_error_messages_witness:
  "strip (ascii ''hi'') \<noteq> []
   \<and> 400 \<le> status_code (example_response 401 None) \<and> status_code (example_response 401 None) < 600
   \<and> fst (chat (simulated (Responded (example_response 401 None)))
             example_client (ascii ''hi'') 0 example_world) = Inr (PStr AUTH_FAILED)
   \<and> fst (chat (simulated (Responded (example_response 429 None)))
             example_client (ascii ''hi'') 0 example_world) = Inr (PStr RATE_LIMITED)
   \<and> fst (chat (simulated (Responded (example_response 503 None)))
             example_client (ascii ''hi'') 0 example_world)
       = Inr (PStr (0x1F6AB # ascii '' API error (503): 503 Server Error: reason for url: https://api.groq.com/openai/v1/chat/completions''))"
proof -
  have a: "400 \<le> status_code (example_response 401 None)"
    and b: "status_code (example_response 401 None) < 600"
    and c: "400 \<le> status_code (example_response 429 None)"
    and d: "status_code (example_response 429 None) < 600"
    and e: "400 \<le> status_code (example_response 503 None)"
    and f: "status_code (example_response 503 None) < 600"
    by (simp_all add: example_response_def)
  have s: "str_nat 503 = ascii ''503''"
    by (simp add: str_nat.simps ascii_def)
  have "fst (chat (simulated (Responded (example_response 401 None)))
             example_client (ascii ''hi'') 0 example_world) = Inr (PStr AUTH_FAILED)"
    using http_error_messages [OF strip_hi a b, of example_client 0 example_world]
    by (simp add: example_response_def)
  moreover have "fst (chat (simulated (Responded (example_response 429 None)))
             example_client (ascii ''hi'') 0 example_world) = Inr (PStr RATE_LIMITED)"
    using http_error_messages [OF strip_hi c d, of example_client 0 example_world]
    by (simp add: example_response_def)
  moreover have "fst (chat (simulated (Responded (example_response 503 None)))
             example_client (ascii ''hi'') 0 example_world)
       = Inr (PStr (0x1F6AB # ascii '' API error (503): 503 Server Error: reason for url: https://api.groq.com/openai/v1/chat/completions''))"
    using http_error_messages [OF strip_hi e f, of example_client 0 example_world]
    by (simp add: example_response_def http_error_msg_def s GROQ_API_URL_def ascii_def)
  ultimately show ?thesis
    using strip_hi a b by blast
qed

text \<open>
  Claim C5. For every 2xx response whose body is JSON with the field
  \<open>choices[0].message.content\<close>, \<open>chat\<close> returns the value of that field unchanged;
  for the body \<open>{"choices":[{"message":{"content":"Bonjour!"}}]}\<close> it returns
  \<open>Bonjour!\<close>.
\<close>

theorem content_returned_verbatim:
  assumes "strip user_text \<noteq> []"
    and "200 \<le> status_code r" and "status_code r < 300"
    and "body_json r = Some (PDict body)"
    and "map_of body (ascii ''choices'') = Some (PList (PDict choice # others))"
    and "map_of choice (ascii ''message'') = Some (PDict message)"
    and "map_of message (ascii ''content'') = Some content"
  shows "fst (chat (simulated (Responded r)) self user_text history w) = Inr content"
  using assms
  by (simp add: chat_simulated reply_to_ok extract_content_def)

theorem content_returned_verbatim_witness:
  "strip (ascii ''hi'') \<noteq> []
   \<and> 200 \<le> status_code (example_response 200 (Some bonjour_body))
   \<and> status_code (example_response 200 (Some bonjour_body)) < 300
   \<and> fst (chat (simulated (Responded (example_response 200 (Some bonjour_body))))
             example_client (ascii ''hi'') 0 example_world) = Inr (PStr (ascii ''Bonjour!''))"
proof -
  have a: "200 \<le> status_code (example_response 200 (Some bonjour_body))"
    and b: "status_code (example_response 200 (Some bonjour_body)) < 300"
    by (simp_all add: example_response_def)
  have c: "body_json (example_response 200 (Some bonjour_body))
             = Some (PDict [(ascii ''choices'',
                 PList [PDict [(ascii ''message'',
                            PDict [(ascii ''content'', PStr (ascii ''Bonjour!''))])]])])"
    by (simp add: example_response_def bonjour_body_def)
  have d: "map_of [(ascii ''choices'',
                 PList [PDict [(ascii ''message'',
                            PDict [(ascii ''content'', PStr (ascii ''Bonjour!''))])]])]
             (ascii ''choices'')
            = Some (PList (PDict [(ascii ''message'',
                            PDict [(ascii ''content'', PStr (ascii ''Bonjour!''))])] # []))"
    by simp
  have e: "map_of [(ascii ''message'', PDict [(ascii ''content'', PStr (ascii ''Bonjour!''))])]
             (ascii ''message'')
            = Some (PDict [(ascii ''content'', PStr (ascii ''Bonjour!''))])"
    by simp
  have f: "map_of [(ascii ''content'', PStr (ascii ''Bonjour!''))] (ascii ''content'')
            = Some (PStr (ascii ''Bonjour!''))"
    by simp
  show ?thesis
    using strip_hi a b content_returned_verbatim [OF strip_hi a b c d e f] by blast
qed

text \<open>
  Claim C6, as amended. For every 2xx response whose body is a JSON object in which
  one of the keys \<open>choices\<close>, \<open>message\<close>, \<open>content\<close> is absent from the object where
  it is looked up (the objects before it on the path being present, \<open>choices\<close> a
  non-empty list), \<open>chat\<close> returns the missing-field message with the quoted name of
  that key.
\<close>

theorem missing_key_message:
  assumes "strip user_text \<noteq> []"
    and "200 \<le> status_code r" and "status_code r < 300"
    and "body_json r = Some (PDict body)"
    and "map_of body (ascii ''choices'') = None \<and> k = ascii ''choices''
         \<or> (\<exists>choice others.
               map_of body (ascii ''choices'') = Some (PList (PDict choice # others))
               \<and> (map_of choice (ascii ''message'') = None \<and> k = ascii ''message''
                    \<or> (\<exists>message. map_of choice (ascii ''message'') = Some (PDict message)
                           \<and> map_of message (ascii ''content'') = None
                           \<and> k = ascii ''content'')))"
  shows "fst (chat (simulated (Responded r)) self user_text history w) =
           Inr (PStr (MISSING_PREFIX @ [39] @ k @ [39]))"
  using assms
  by (auto simp: chat_simulated reply_to_ok extract_content_def handle_exception_def
      missing_field_def repr_key_def)

theorem missing_key_message_witness:
  "strip (ascii ''hi'') \<noteq> []
   \<and> 200 \<le> status_code (example_response 200 (Some no_choices_body))
   \<and> status_code (example_response 200 (Some no_choices_body)) < 300
   \<and> fst (chat (simulated (Responded (example_response 200 (Some no_choices_body))))
             example_client (ascii ''hi'') 0 example_world)
       = Inr (PStr (MISSING_PREFIX @ [39] @ ascii ''choices'' @ [39]))
   \<and> fst (chat (simulated (Responded (example_response 200 (Some no_message_body))))
             example_client (ascii ''hi'') 0 example_world)
       = Inr (PStr (MISSING_PREFIX @ [39] @ ascii ''message'' @ [39]))
   \<and> fst (chat (simulated (Responded (example_response 200 (Some no_content_body))))
             example_client (ascii ''hi'') 0 example_world)
       = Inr (PStr (MISSING_PREFIX @ [39] @ ascii ''content'' @ [39]))"
proof -
  have b1: "body_json (example_response 200 (Some no_choices_body))
              = Some (PDict [(ascii ''id'', PStr (ascii ''x''))])"
    by (simp add: example_response_def no_choices_body_def)
  have c1: "map_of [(ascii ''id'', PStr (ascii ''x''))] (ascii ''choices'') = None
              \<and> ascii ''choices'' = ascii ''choices''
            \<or> (\<exists>choice others.
                 map_of [(ascii ''id'', PStr (ascii ''x''))] (ascii ''choices'')
                   = Some (PList (PDict choice # others))
                 \<and> (map_of choice (ascii ''message'') = None \<and> ascii ''choices'' = ascii ''message''
                      \<or> (\<exists>message. map_of choice (ascii ''message'') = Some (PDict message)
                             \<and> map_of message (ascii ''content'') = None
                             \<and> ascii ''choices'' = ascii ''content'')))"
    by (simp add: ascii_def)
  have b2: "body_json (example_response 200 (Some no_message_body))
              = Some (PDict [(ascii ''choices'', PList [PDict [(ascii ''index'', PInt 0)]])])"
    by (simp add: example_response_def no_message_body_def)
  have c2: "map_of [(ascii ''choices'', PList [PDict [(ascii ''index'', PInt 0)]])] (ascii ''choices'') = None
              \<and> ascii ''message'' = ascii ''choices''
            \<or> (\<exists>choice others.
                 map_of [(ascii ''choices'', PList [PDict [(ascii ''index'', PInt 0)]])] (ascii ''choices'')
                   = Some (PList (PDict choice # others))
                 \<and> (map_of choice (ascii ''message'') = None \<and> ascii ''message'' = ascii ''message''
                      \<or> (\<exists>message. map_of choice (ascii ''message'') = Some (PDict message)
                             \<and> map_of message (ascii ''content'') = None
                             \<and> ascii ''message'' = ascii ''content'')))"
    by (simp add: ascii_def)
  have b3: "body_json (example_response 200 (Some no_content_body))
              = Some (PDict [(ascii ''choices'',
                   PList [PDict [(ascii ''message'', PDict [(ascii ''role'', PStr (ascii ''assistant''))])]])])"
    by (simp add: example_response_def no_content_body_def)
  have c3: "map_of [(ascii ''choices'',
                   PList [PDict [(ascii ''message'', PDict [(ascii ''role'', PStr (ascii ''assistant''))])]])]
              (ascii ''choices'') = None
              \<and> ascii ''content'' = ascii ''choices''
            \<or> (\<exists>choice others.
                 map_of [(ascii ''choices'',
                   PList [PDict [(ascii ''message'', PDict [(ascii ''role'', PStr (ascii ''assistant''))])]])]
                   (ascii ''choices'')
                   = Some (PList (PDict choice # others))
                 \<and> (map_of choice (ascii ''message'') = None \<and> ascii ''content'' = ascii ''message''
                      \<or> (\<exists>message. map_of choice (ascii ''message'') = Some (PDict message)
                             \<and> map_of message (ascii ''content'') = None
                             \<and> ascii ''content'' = ascii ''content'')))"
    by (simp add: ascii_def)
  show ?thesis
    using strip_hi example_ok_bounds [of "Some no_choices_body"]
      missing_key_message [OF strip_hi example_ok_bounds b1 c1, of example_client 0 example_world]
      missing_key_message [OF strip_hi example_ok_bounds b2 c2, of example_client 0 example_world]
      missing_key_message [OF strip_hi example_ok_bounds b3 c3, of example_client 0 example_world]
    by blast
qed

text \<open>
  An empty \<open>choices\<close> list is not a missing key: the subscript raises
  \<open>IndexError\<close>, which the \<open>KeyError\<close> clause does not catch, and the last clause
  answers with the text for an unexpected error, which does not begin like the
  missing-field message.
\<close>

theorem empty_choices_counterexample:
  "fst (chat (simulated (Responded (example_response 200 (Some empty_choices_body))))
          example_client (ascii ''hi'') 0 example_world)
     = Inr (PStr (unexpected_error (ascii ''list index out of range'')))
   \<and> take (length MISSING_PREFIX) (unexpected_error (ascii ''list index out of range''))
       \<noteq> MISSING_PREFIX"
  by (subst chat_example_ok)
    (simp add: empty_choices_body_def extract_content_def handle_exception_def
      unexpected_error_def MISSING_PREFIX_def ascii_def)

text \<open>
  Claim C7, as amended. On every run of \<open>main\<close> that handles a submission (a valid key,
  no click on the clear button, the form submitted with a non-empty input), the new
  user turn is appended to the stored conversation before \<open>chat\<close> is called with that
  same list: at the call the stored conversation already ends with the new user turn
  and nothing has been sent yet, and the run ends with the answer appended after it.
  When the input is not whitespace only, \<open>chat\<close> sends one request, whose messages are
  the view of that history followed by the new user turn, so the last two messages are
  both the new user turn; this holds for every length of the history, ten entries or
  fewer after the append included. When the input is whitespace only, nothing is sent.
\<close>

theorem submission_sends_user_turn_twice:
  assumes "truthy (validate_api_key (Some key))"
    and "session_allocated w"
    and "list_all is_turn (stored_conversation w)"
    and "\<not> clear_clicked ui"
    and "submit_button ui" and "user_input ui \<noteq> []"
  shows "\<exists>a wc response wr.
           session_messages wc = Some a
           \<and> stored_conversation wc =
                stored_conversation w @ [turn (ascii ''user'') (PStr (user_input ui))]
           \<and> sent wc = sent w
           \<and> chat post \<lparr>api_key = key\<rparr> (user_input ui) a wc = (Inr response, wr)
           \<and> main (Some key) post ui w =
                (Rerun, Some \<lparr>api_key = key\<rparr>,
                 list_append a (turn (ascii ''assistant'') response) wr)
           \<and> stored_conversation (list_append a (turn (ascii ''assistant'') response) wr) =
                stored_conversation w @ [turn (ascii ''user'') (PStr (user_input ui)),
                                         turn (ascii ''assistant'') response]
           \<and> sent (list_append a (turn (ascii ''assistant'') response) wr) = sent w @
                (if strip (user_input ui) = [] then []
                 else [outgoing_request \<lparr>api_key = key\<rparr>
                         (request_view
                            (stored_conversation w @ [turn (ascii ''user'') (PStr (user_input ui))])
                            (user_input ui))])
           \<and> (\<exists>front. request_view
                         (stored_conversation w @ [turn (ascii ''user'') (PStr (user_input ui))])
                         (user_input ui)
                       = front @ [turn (ascii ''user'') (PStr (user_input ui)),
                                  turn (ascii ''user'') (PStr (user_input ui))])"
  using main_submission [OF assms, of post]
    request_view_ends [of "stored_conversation w" "turn (ascii ''user'') (PStr (user_input ui))"
      "user_input ui"]
  by blast

theorem submission_sends_user_turn_twice_witness:
  "truthy (validate_api_key (Some example_key))
   \<and> session_allocated short_world
   \<and> list_all is_turn (stored_conversation short_world)
   \<and> \<not> clear_clicked example_widgets \<and> submit_button example_widgets
   \<and> user_input example_widgets \<noteq> []
   \<and> length (short_history @ [turn (ascii ''user'') (PStr (ascii ''hi''))]) \<le> 10
   \<and> (\<exists>a wc response wr.
         stored_conversation wc = short_history @ [turn (ascii ''user'') (PStr (ascii ''hi''))]
         \<and> sent wc = []
         \<and> chat (simulated (OtherFailure [])) \<lparr>api_key = example_key\<rparr> (ascii ''hi'') a wc
              = (Inr response, wr)
         \<and> main (Some example_key) (simulated (OtherFailure [])) example_widgets short_world
              = (Rerun, Some \<lparr>api_key = example_key\<rparr>,
                 list_append a (turn (ascii ''assistant'') response) wr)
         \<and> sent (list_append a (turn (ascii ''assistant'') response) wr) =
              [outgoing_request \<lparr>api_key = example_key\<rparr>
                 [turn (ascii ''system'') (PStr SYSTEM_PROMPT),
                  turn (ascii ''user'') (PStr (ascii ''Paris?'')),
                  turn (ascii ''assistant'') (PStr (ascii ''Go in spring.'')),
                  turn (ascii ''user'') (PStr (ascii ''hi'')),
                  turn (ascii ''user'') (PStr (ascii ''hi''))]])"
proof -
  have a: "\<not> clear_clicked example_widgets" and b: "submit_button example_widgets"
    and c: "user_input example_widgets \<noteq> []" and d: "user_input example_widgets = ascii ''hi''"
    by (simp_all add: example_widgets_def ascii_def)
  have e: "length (short_history @ [turn (ascii ''user'') (PStr (ascii ''hi''))]) \<le> 10"
    by (simp add: short_history_def)
  have f: "request_view (short_history @ [turn (ascii ''user'') (PStr (ascii ''hi''))]) (ascii ''hi'')
             = [turn (ascii ''system'') (PStr SYSTEM_PROMPT),
                turn (ascii ''user'') (PStr (ascii ''Paris?'')),
                turn (ascii ''assistant'') (PStr (ascii ''Go in spring.'')),
                turn (ascii ''user'') (PStr (ascii ''hi'')),
                turn (ascii ''user'') (PStr (ascii ''hi''))]"
    by (simp add: request_view_short [OF e]) (simp add: short_history_def)
  show ?thesis
    using example_key_valid short_world_allocated short_world_turns a b c e
      submission_sends_user_turn_twice
        [OF example_key_valid short_world_allocated short_world_turns a b c,
         of "simulated (OtherFailure [])"]
    by (simp add: d f strip_hi short_world_conversation) blast
qed

text \<open>
  The claim as first stated promises the doubled user turn in the outgoing payload for
  every handled submission with at most ten entries after the append. A submission of
  three spaces is handled, and its turn is stored before the answer, but \<open>chat\<close>
  answers with the prompt for input and no payload goes out.
\<close>

theorem blank_submission_counterexample:
  "submit_button blank_widgets \<and> user_input blank_widgets = ascii ''   ''
   \<and> truthy (PStr (user_input blank_widgets))
   \<and> length (stored_conversation short_world @ [turn (ascii ''user'') (PStr (ascii ''   ''))]) \<le> 10
   \<and> fst (main (Some example_key) (simulated (OtherFailure [])) blank_widgets short_world) = Rerun
   \<and> stored_conversation
        (snd (snd (main (Some example_key) (simulated (OtherFailure [])) blank_widgets short_world)))
       = short_history @ [turn (ascii ''user'') (PStr (ascii ''   '')),
                          turn (ascii ''assistant'') (PStr QUIET_PROMPT)]
   \<and> sent (snd (snd (main (Some example_key) (simulated (OtherFailure [])) blank_widgets
                        short_world)))
       = []"
proof -
  have a: "\<not> clear_clicked blank_widgets" and b: "submit_button blank_widgets"
    and c: "user_input blank_widgets \<noteq> []" and d: "user_input blank_widgets = ascii ''   ''"
    by (simp_all add: blank_widgets_def ascii_def)
  have e: "strip (ascii ''   '') = []"
    by (simp add: strip_def ascii_def py_isspace_def)
  obtain a' wc response wr where run:
      "chat (simulated (OtherFailure [])) \<lparr>api_key = example_key\<rparr> (ascii ''   '') a' wc
         = (Inr response, wr)"
      "main (Some example_key) (simulated (OtherFailure [])) blank_widgets short_world =
         (Rerun, Some \<lparr>api_key = example_key\<rparr>,
          list_append a' (turn (ascii ''assistant'') response) wr)"
      "stored_conversation (list_append a' (turn (ascii ''assistant'') response) wr) =
         short_history @ [turn (ascii ''user'') (PStr (ascii ''   '')),
                          turn (ascii ''assistant'') response]"
      "sent (list_append a' (turn (ascii ''assistant'') response) wr) = []"
    using main_submission
        [OF example_key_valid short_world_allocated short_world_turns a b c,
         of "simulated (OtherFailure [])"]
    by (auto simp: d e short_world_conversation)
  have "response = PStr QUIET_PROMPT"
    using run(1) e by (simp add: chat_def)
  then show ?thesis
    using run b d by (simp add: short_world_conversation short_history_def ascii_def)
qed

text \<open>
  Claim C8. \<open>_make_api_request\<close> and \<open>chat\<close> leave the list of the history as it
  was, for every history that exists when the call is made (its address is allocated):
  the list they build and extend is a new one, and only the request holds the last
  ten turns.
\<close>

theorem history_left_unchanged:
  assumes "history < next_addr w"
  shows "heap (snd (make_api_request post self user_text history w)) history = heap w history
       \<and> heap (snd (chat post self user_text history w)) history = heap w history"
  using assms
  by (simp add: chat_def make_api_request_world)

theorem history_left_unchanged_witness:
  "0 < next_addr example_world
   \<and> heap (snd (make_api_request (\<lambda>r. OtherFailure []) example_client (ascii ''hi'') 0 example_world)) 0
       = heap example_world 0
   \<and> heap (snd (chat (\<lambda>r. OtherFailure []) example_client (ascii ''hi'') 0 example_world)) 0
       = heap example_world 0"
proof -
  have h: "0 < next_addr example_world"
    by (simp add: example_world_def)
  show ?thesis
    using h history_left_unchanged [OF h] by blast
qed

text \<open>
  Claim C9. \<open>validate_api_key\<close> gives a truthy value exactly for the keys that are
  present, not empty, not the placeholder, and longer than ten characters.
\<close>

theorem validate_api_key_accepts:
  "truthy (validate_api_key k) \<longleftrightarrow>
     (\<exists>s. k = Some s \<and> s \<noteq> [] \<and> s \<noteq> PLACEHOLDER_KEY \<and> 10 < length s)"
  by (cases k) (auto simp: validate_api_key_def)

theorem validate_api_key_accepts_witness:
  "truthy (validate_api_key (Some example_key))
   \<and> \<not> truthy (validate_api_key None)
   \<and> \<not> truthy (validate_api_key (Some []))
   \<and> \<not> truthy (validate_api_key (Some PLACEHOLDER_KEY))
   \<and> \<not> truthy (validate_api_key (Some (ascii ''0123456789'')))"
  using validate_api_key_accepts [of "Some example_key"] validate_api_key_accepts [of None]
    validate_api_key_accepts [of "Some []"] validate_api_key_accepts [of "Some PLACEHOLDER_KEY"]
    validate_api_key_accepts [of "Some (ascii ''0123456789'')"]
  by (simp add: example_key_def PLACEHOLDER_KEY_def ascii_def)

text \<open>
  Claim C10. When the key is absent or \<open>validate_api_key\<close> rejects it, the run of
  \<open>main\<close> stops after showing the error and the setup instructions: no client has
  been constructed and no request has been sent.
\<close>

theorem invalid_key_halts:
  assumes "key = None \<or> \<not> truthy (validate_api_key key)"
  shows "\<exists>w'. main key post ui w = (Stopped, None, w')
           \<and> sent w' = sent w
           \<and> rendered w' = rendered w @ [PageConfig, Style, ErrorBox, SetupInstructions]"
proof -
  define w1 where "w1 = initialize_session_state (render Style (render PageConfig w))"
  have w1: "sent w1 = sent w" "rendered w1 = rendered w @ [PageConfig, Style]"
    by (auto simp: w1_def initialize_session_state_def render_def new_list_def Let_def
        split: option.splits)
  have "main key post ui w = halt_for_setup w1"
    using assms by (cases key) (auto simp: main_def Let_def w1_def)
  then show ?thesis
    using w1 by (simp add: halt_for_setup_def render_def)
qed

theorem invalid_key_halts_witness:
  "(Some PLACEHOLDER_KEY = None \<or> \<not> truthy (validate_api_key (Some PLACEHOLDER_KEY)))
   \<and> (\<exists>w'. main (Some PLACEHOLDER_KEY) (simulated (OtherFailure [])) example_widgets example_world
              = (Stopped, None, w')
           \<and> sent w' = sent example_world
           \<and> rendered w' = rendered example_world @ [PageConfig, Style, ErrorBox, SetupInstructions])
   \<and> (\<exists>w'. main None (simulated (OtherFailure [])) example_widgets example_world
              = (Stopped, None, w')
           \<and> sent w' = sent example_world
           \<and> rendered w' = rendered example_world @ [PageConfig, Style, ErrorBox, SetupInstructions])"
proof -
  have a: "Some PLACEHOLDER_KEY = None \<or> \<not> truthy (validate_api_key (Some PLACEHOLDER_KEY))"
    by (simp add: validate_api_key_def)
  have b: "(None :: pystr option) = None \<or> \<not> truthy (validate_api_key None)"
    by simp
  show ?thesis
    using a invalid_key_halts [OF a] invalid_key_halts [OF b] by blast
qed

end
